theory Spec2Isabelle
  imports Main "HOL-Library.Sublist"
begin

section \<open>The CDP proxy server (cdp\_server/go/main.go)\<close>

text \<open>
  The proxy sits between a DevTools frontend and the browser's remote-debugging
  WebSocket. This theory embeds the connection wrapper \<open>MyWSConnection\<close>, the two
  message handlers, a pass of the forwarding loop and the acceptor of \<open>main.go\<close>.

  Conventions of the embedding:
  \<^item> a frame (\<open>[]byte\<close>) and a Go \<open>string\<close> are both a \<open>string\<close>, a list of bytes;
    the nil slice and the empty slice are both \<open>[]\<close>;
  \<^item> a method that mutates its receiver returns the updated receiver;
  \<^item> a call ends in one of three ways: it panics, it is suspended on a channel
    operation that cannot proceed in the current state, or it returns;
  \<^item> a method body that runs under the mutex \<open>m\<close> is one function, so the mutex
    itself has no field;
  \<^item> calls of \<open>logger\<close> write to a log sink only and are left out.
\<close>

subsection \<open>Functions of package strings\<close>

text \<open>
  \<open>strings.Index(s, substr)\<close> is the byte offset of the first occurrence of
  \<open>substr\<close> in \<open>s\<close>; Go returns \<open>-1\<close> when there is none, the model \<open>None\<close>.
\<close>

fun strings_Index :: "string \<Rightarrow> string \<Rightarrow> nat option" where
  "strings_Index [] substr = (if substr = [] then Some 0 else None)"
| "strings_Index (c # cs) substr =
     (if prefix substr (c # cs) then Some 0
      else map_option Suc (strings_Index cs substr))"

definition strings_Contains :: "string \<Rightarrow> string \<Rightarrow> bool" where
  "strings_Contains s substr = (strings_Index s substr \<noteq> None)"

text \<open>
  \<open>strings.Replace(s, old, new, n)\<close> for \<open>n \<ge> 0\<close> and a non-empty \<open>old\<close>, which
  is how the proxy calls it (\<open>n = 1\<close>, \<open>old\<close> a literal): the first \<open>n\<close>
  non-overlapping occurrences of \<open>old\<close>, from the left, are replaced by \<open>new\<close>.
\<close>

fun strings_Replace :: "string \<Rightarrow> string \<Rightarrow> string \<Rightarrow> nat \<Rightarrow> string" where
  "strings_Replace s old new 0 = s"
| "strings_Replace s old new (Suc n) =
     (case strings_Index s old of
        None \<Rightarrow> s
      | Some i \<Rightarrow> take i s @ new @ strings_Replace (drop (i + length old) s) old new n)"

subsection \<open>Outcomes of a call, and buffered channels\<close>

text \<open>
  The run-time panics that the proxy can raise: a send on a closed channel, the
  close of a closed channel, and \<open>IndexOutOfRange i n\<close>, the index \<open>i\<close> applied
  to a slice of length \<open>n\<close>.
\<close>

datatype panic =
    SendOnClosedChannel
  | CloseOfClosedChannel
  | IndexOutOfRange nat nat

datatype 'a result = Panic panic | Blocked | Return 'a

text \<open>
  A buffered \<open>chan []byte\<close>: the queued frames, oldest first, the capacity given to
  \<open>make\<close>, and whether \<open>close\<close> has been called. The three operations follow the
  language: a send on a closed channel panics and a send on a full one waits; a
  receive takes the oldest queued frame, yields the zero value at once when the
  channel is closed and drained, and waits when it is open and empty; closing a
  closed channel panics. A receive also yields the flag \<open>ok\<close> of the two-valued
  form \<open>v, ok := <-ch\<close>, false exactly for the zero value of a closed channel.
\<close>

record chan =
  buf :: "string list"
  cap :: nat
  chan_closed :: bool

definition make_chan :: "nat \<Rightarrow> chan" where
  "make_chan n = \<lparr>buf = [], cap = n, chan_closed = False\<rparr>"

definition chan_send :: "chan \<Rightarrow> string \<Rightarrow> chan result" where
  "chan_send ch v =
     (if chan_closed ch then Panic SendOnClosedChannel
      else if length (buf ch) < cap ch then Return (ch\<lparr>buf := buf ch @ [v]\<rparr>)
      else Blocked)"

definition chan_recv :: "chan \<Rightarrow> (string \<times> bool \<times> chan) result" where
  "chan_recv ch =
     (case buf ch of
        v # vs \<Rightarrow> Return (v, True, ch\<lparr>buf := vs\<rparr>)
      | [] \<Rightarrow> if chan_closed ch then Return ([], False, ch) else Blocked)"

definition chan_close :: "chan \<Rightarrow> chan result" where
  "chan_close ch =
     (if chan_closed ch then Panic CloseOfClosedChannel
      else Return (ch\<lparr>chan_closed := True\<rparr>))"

subsection \<open>Program constants and the CDP types\<close>

definition Author :: string where
  "Author = ''From 52pj''"

definition buffer_size :: nat where
  "buffer_size = 1024 * 1024"

record CallFrame =
  FunctionName :: string

record DebuggerPausedParams =
  Reason :: string
  HitBreakpoints :: "string list"
  CallFrames :: "CallFrame list"

record DebuggerPaused =
  Method :: string
  Params :: DebuggerPausedParams

subsection \<open>MyWSConnection\<close>

text \<open>
  The socket \<open>*websocket.Conn\<close> belongs to the gorilla library. The proxy only
  reads frames from it, writes frames to it and closes it; the model keeps an
  identity for it and whether \<open>Close\<close> has been called on it.
\<close>

record websocket_Conn =
  conn_id :: nat
  conn_closed :: bool

definition websocket_Close :: "websocket_Conn \<Rightarrow> websocket_Conn" where
  "websocket_Close ws = ws\<lparr>conn_closed := True\<rparr>"

record MyWSConnection =
  Name :: string
  conn :: websocket_Conn
  msg_sender :: chan
  msg_reciver :: chan
  is_closed :: bool

definition NewMyWSConnection :: "string \<Rightarrow> websocket_Conn \<Rightarrow> MyWSConnection" where
  "NewMyWSConnection name ws =
     \<lparr>Name = name, conn = ws,
      msg_sender = make_chan buffer_size,
      msg_reciver = make_chan buffer_size,
      is_closed = False\<rparr>"

definition is_Closed :: "MyWSConnection \<Rightarrow> bool" where
  "is_Closed c = is_closed c"

text \<open>A Go \<open>error\<close> is its message; \<open>None\<close> is the nil error.\<close>

type_synonym error = string

definition closed_error :: "MyWSConnection \<Rightarrow> error" where
  "closed_error c = Name c @ '' connection closed''"

definition WriteMessage :: "MyWSConnection \<Rightarrow> string \<Rightarrow> (error option \<times> MyWSConnection) result" where
  "WriteMessage c msg =
     (if is_Closed c then Return (Some (closed_error c), c)
      else case chan_send (msg_sender c) msg of
             Panic p \<Rightarrow> Panic p
           | Blocked \<Rightarrow> Blocked
           | Return ch \<Rightarrow> Return (None, c\<lparr>msg_sender := ch\<rparr>))"

text \<open>
  \<open>ReadMessage\<close> tests the flag and then receives. \<open>ReadMessage_recv\<close> is the
  second half, lines 172 and 173: it is what runs when a reader that was waiting
  on the empty channel is woken. The source uses the one-valued receive
  \<open>msg = <-c.msg_reciver\<close>, so the flag \<open>ok\<close> is not looked at.
\<close>

definition ReadMessage_recv :: "MyWSConnection \<Rightarrow> ((string \<times> error option) \<times> MyWSConnection) result" where
  "ReadMessage_recv c =
     (case chan_recv (msg_reciver c) of
        Panic p \<Rightarrow> Panic p
      | Blocked \<Rightarrow> Blocked
      | Return (msg, ok, ch) \<Rightarrow> Return ((msg, None), c\<lparr>msg_reciver := ch\<rparr>))"

definition ReadMessage :: "MyWSConnection \<Rightarrow> ((string \<times> error option) \<times> MyWSConnection) result" where
  "ReadMessage c =
     (if is_Closed c then Return (([], Some (closed_error c)), c)
      else ReadMessage_recv c)"

definition Close :: "MyWSConnection \<Rightarrow> MyWSConnection result" where
  "Close c =
     (if \<not> is_closed c then
        (case chan_close (msg_sender c) of
           Panic p \<Rightarrow> Panic p
         | Blocked \<Rightarrow> Blocked
         | Return s \<Rightarrow>
             (case chan_close (msg_reciver c) of
                Panic p \<Rightarrow> Panic p
              | Blocked \<Rightarrow> Blocked
              | Return r \<Rightarrow>
                  Return (c\<lparr>msg_sender := s, msg_reciver := r, is_closed := True,
                            conn := websocket_Close (conn c)\<rparr>)))
      else Return (c\<lparr>conn := websocket_Close (conn c)\<rparr>))"

subsection \<open>The message handlers\<close>

record ConnectionInfo =
  cid :: string
  des :: string

definition stepOut_frame :: string where
  \<open>stepOut_frame = ''{"id":0,"method":"Debugger.stepOut","params":{}}''\<close>

definition resume_frame :: string where
  \<open>resume_frame = ''{"id":0,"method":"Debugger.resume","params":{"terminateOnResume":false}}''\<close>

text \<open>
  A handler returns the frame to forward and the flag \<open>is_ok\<close>, together with the
  connection it was given, which it may have written to.
\<close>

type_synonym handled = "((string \<times> bool) \<times> MyWSConnection) result"

definition handle_msg_from_devtools :: "MyWSConnection \<Rightarrow> ConnectionInfo \<Rightarrow> string \<Rightarrow> handled" where
  "handle_msg_from_devtools from_conn cinfo msg =
     (let msg' =
        (if strings_Contains msg ''Overlay.setPausedInDebuggerMessage''
         then strings_Replace msg ''Paused in debugger''
                (''Paused in debugger - Surprise '' @ Author) 1
         else msg)
      in Return ((msg', True), from_conn))"

text \<open>
  \<open>process_debugger_paused\<close> reads the global \<open>MYDEBUGGER_NAME\<close>, here its first
  argument. \<open>params.CallFrames[0]\<close> is an index expression on a slice: on an empty
  slice it panics.
\<close>

definition process_debugger_paused ::
  "string \<Rightarrow> MyWSConnection \<Rightarrow> ConnectionInfo \<Rightarrow> DebuggerPausedParams \<Rightarrow> (bool \<times> MyWSConnection) result" where
  "process_debugger_paused MYDEBUGGER_NAME from_conn cinfo params =
     (let is_js_debugger = (Reason params = ''other'' \<and> length (HitBreakpoints params) = 0) in
      if \<not> is_js_debugger then Return (False, from_conn)
      else
        (case CallFrames params of
           [] \<Rightarrow> Panic (IndexOutOfRange 0 0)
         | frame0 # _ \<Rightarrow>
             (let is_my_debugger = (FunctionName frame0 = MYDEBUGGER_NAME) in
              if is_my_debugger then
                (case WriteMessage from_conn stepOut_frame of
                   Panic p \<Rightarrow> Panic p
                 | Blocked \<Rightarrow> Blocked
                 | Return (Some err, c) \<Rightarrow> Return (False, c)
                 | Return (None, c) \<Rightarrow> Return (True, c))
              else
                (case WriteMessage from_conn resume_frame of
                   Panic p \<Rightarrow> Panic p
                 | Blocked \<Rightarrow> Blocked
                 | Return (Some err, c) \<Rightarrow> Return (False, c)
                 | Return (None, c) \<Rightarrow> Return (True, c)))))"

text \<open>
  \<open>json.Unmarshal\<close> belongs to the standard library and is a parameter: applied
  to a frame it gives \<open>None\<close> when decoding into a \<open>DebuggerPaused\<close> reports an
  error, and the decoded value otherwise. The handler reads the decoded value
  only when the error is nil.
\<close>

type_synonym unmarshal = "string \<Rightarrow> DebuggerPaused option"

definition handle_msg_from_web ::
  "unmarshal \<Rightarrow> string \<Rightarrow> MyWSConnection \<Rightarrow> ConnectionInfo \<Rightarrow> string \<Rightarrow> handled" where
  \<open>handle_msg_from_web json_Unmarshal MYDEBUGGER_NAME from_conn cinfo msg =
     (if strings_Contains msg ''"id":0'' then Return (([], False), from_conn)
      else
        (case json_Unmarshal msg of
           None \<Rightarrow> Return ((msg, True), from_conn)
         | Some cdp_res \<Rightarrow>
             if Method cdp_res = ''Debugger.paused'' then
               (case process_debugger_paused MYDEBUGGER_NAME from_conn cinfo (Params cdp_res) of
                  Panic p \<Rightarrow> Panic p
                | Blocked \<Rightarrow> Blocked
                | Return (True, c) \<Rightarrow> Return (([], False), c)
                | Return (False, c) \<Rightarrow> Return ((msg, True), c))
             else Return ((msg, True), from_conn)))\<close>

subsection \<open>The tasks of start\<close>

text \<open>
  One pass through a loop either goes on to the next pass or ends the task; a
  task that ends has run its deferred calls.
\<close>

datatype 'a iter = Next 'a | Done 'a

definition deferred_Close :: "MyWSConnection \<Rightarrow> MyWSConnection iter result" where
  "deferred_Close c =
     (case Close c of
        Panic p \<Rightarrow> Panic p
      | Blocked \<Rightarrow> Blocked
      | Return c' \<Rightarrow> Return (Done c'))"

text \<open>
  The reader goroutine of \<open>start\<close>, lines 134 to 143. Its first argument is what
  \<open>c.conn.ReadMessage()\<close> gave: \<open>None\<close> for an error, the frame otherwise.
\<close>

definition start_reader_iter :: "string option \<Rightarrow> MyWSConnection \<Rightarrow> MyWSConnection iter result" where
  "start_reader_iter received c =
     (case received of
        None \<Rightarrow> deferred_Close c
      | Some msg \<Rightarrow>
          if is_Closed c then deferred_Close c
          else (case chan_send (msg_reciver c) msg of
                  Panic p \<Rightarrow> Panic p
                | Blocked \<Rightarrow> Blocked
                | Return ch \<Rightarrow> Return (Next (c\<lparr>msg_reciver := ch\<rparr>))))"

text \<open>
  The writer loop of \<open>start\<close>, lines 147 to 155: \<open>range\<close> ends when the channel
  is closed and drained. The first argument says whether \<open>c.conn.WriteMessage\<close>
  succeeds on the socket.
\<close>

definition start_writer_iter :: "bool \<Rightarrow> MyWSConnection \<Rightarrow> MyWSConnection iter result" where
  "start_writer_iter sent c =
     (case chan_recv (msg_sender c) of
        Panic p \<Rightarrow> Panic p
      | Blocked \<Rightarrow> Blocked
      | Return (msg, ok, ch) \<Rightarrow>
          if \<not> ok then deferred_Close c
          else (let c1 = c\<lparr>msg_sender := ch\<rparr> in
                if is_Closed c1 then deferred_Close c1
                else if sent then Return (Next c1)
                else deferred_Close c1))"

subsection \<open>The forwarding loop\<close>

type_synonym TransimiterHandler = "MyWSConnection \<Rightarrow> ConnectionInfo \<Rightarrow> string \<Rightarrow> handled"

text \<open>When \<open>transimiter\<close> returns, its deferred calls close \<open>_from\<close>, then \<open>_to\<close>.\<close>

definition transimiter_return ::
  "MyWSConnection \<Rightarrow> MyWSConnection \<Rightarrow> (MyWSConnection \<times> MyWSConnection) iter result" where
  "transimiter_return from_conn to_conn =
     (case Close from_conn of
        Panic p \<Rightarrow> Panic p
      | Blocked \<Rightarrow> Blocked
      | Return f \<Rightarrow>
          (case Close to_conn of
             Panic p \<Rightarrow> Panic p
           | Blocked \<Rightarrow> Blocked
           | Return t \<Rightarrow> Return (Done (f, t))))"

text \<open>One pass of the loop of \<open>transimiter\<close>, lines 363 to 381.\<close>

definition transimiter_iter ::
  "TransimiterHandler option \<Rightarrow> MyWSConnection \<Rightarrow> MyWSConnection \<Rightarrow> ConnectionInfo
     \<Rightarrow> (MyWSConnection \<times> MyWSConnection) iter result" where
  "transimiter_iter handler from_conn to_conn cinfo =
     (case ReadMessage from_conn of
        Panic p \<Rightarrow> Panic p
      | Blocked \<Rightarrow> Blocked
      | Return ((message, Some err), f) \<Rightarrow> transimiter_return f to_conn
      | Return ((message, None), f) \<Rightarrow>
          (case (case handler of
                   None \<Rightarrow> Return ((message, True), f)
                 | Some h \<Rightarrow> h f cinfo message) of
             Panic p \<Rightarrow> Panic p
           | Blocked \<Rightarrow> Blocked
           | Return ((message', is_ok), f') \<Rightarrow>
               if is_ok then
                 (case WriteMessage to_conn message' of
                    Panic p \<Rightarrow> Panic p
                  | Blocked \<Rightarrow> Blocked
                  | Return (Some err, t) \<Rightarrow> transimiter_return f' t
                  | Return (None, t) \<Rightarrow> Return (Next (f', t)))
               else Return (Next (f', to_conn))))"

subsection \<open>The acceptor and the connection pool\<close>

record DevtoolsToWebConnection =
  Devtools :: MyWSConnection
  Web :: MyWSConnection

text \<open>
  \<open>ConnectionPool\<close> is a Go map to pointers: a key that is absent and a key bound
  to nil both read as nil, here \<open>None\<close>.
\<close>

type_synonym ConnectionPool = "string \<rightharpoonup> DevtoolsToWebConnection"

text \<open>
  A session is a call of \<open>start_transmiter_task\<close> that has dialled the browser
  and waits at \<open>wg.Wait()\<close>: its argument \<open>path\<close> and its two local connections.
\<close>

record session =
  s_path :: string
  s_devtools :: MyWSConnection
  s_web :: MyWSConnection

text \<open>
  The process: the global \<open>CONNECTION_POOL\<close>, the sessions in progress, and the
  status passed to \<open>os.Exit\<close> once the process has exited.
\<close>

record server =
  CONNECTION_POOL :: ConnectionPool
  sessions :: "session list"
  exit_code :: "nat option"

definition server_init :: server where
  "server_init = \<lparr>CONNECTION_POOL = Map.empty, sessions = [], exit_code = None\<rparr>"

definition serving :: "server \<Rightarrow> bool" where
  "serving st = (exit_code st = None)"

text \<open>
  \<open>websocket_handler\<close>: the first argument is what \<open>upgrader.Upgrade\<close> gave
  (\<open>None\<close> for an error), the second is \<open>r.URL.Path\<close>. \<open>log.Fatal\<close> prints and
  calls \<open>os.Exit(1)\<close>. The second component of the value is the goroutine that
  \<open>go start_transmiter_task(devtools, path)\<close> starts, if any.
\<close>

definition websocket_handler ::
  "websocket_Conn option \<Rightarrow> string \<Rightarrow> server \<Rightarrow> server \<times> (MyWSConnection \<times> string) option" where
  "websocket_handler upgraded path st =
     (if CONNECTION_POOL st path \<noteq> None then (st, None)
      else (case upgraded of
              None \<Rightarrow> (st\<lparr>exit_code := Some 1\<rparr>, None)
            | Some ws \<Rightarrow> (st, Some (NewMyWSConnection ''devtools'' ws, path))))"

text \<open>
  \<open>start_transmiter_task\<close> up to \<open>wg.Wait()\<close>, lines 311 to 345. The first
  argument is what \<open>websocket.DefaultDialer.Dial\<close> gave. When the dial fails the
  function returns and its deferred \<open>devtools.Close()\<close> runs.
\<close>

definition start_transmiter_task_dial ::
  "websocket_Conn option \<Rightarrow> MyWSConnection \<Rightarrow> string \<Rightarrow> server \<Rightarrow> server result" where
  "start_transmiter_task_dial dialed devtools path st =
     (case dialed of
        None \<Rightarrow>
          (case Close devtools of
             Panic p \<Rightarrow> Panic p
           | Blocked \<Rightarrow> Blocked
           | Return d \<Rightarrow> Return st)
      | Some ws \<Rightarrow>
          Return (st\<lparr>sessions := sessions st @
                    [\<lparr>s_path = path, s_devtools = devtools,
                      s_web = NewMyWSConnection ''web'' ws\<rparr>]\<rparr>))"

text \<open>
  \<open>start_transmiter_task\<close> after \<open>wg.Wait()\<close>, lines 347 to 350:
  \<open>delete(CONNECTION_POOL, path)\<close>, then the deferred \<open>web.Close()\<close> and
  \<open>devtools.Close()\<close>. The argument is the session with its connections as the
  two forwarding loops left them.
\<close>

definition start_transmiter_task_cleanup :: "session \<Rightarrow> server \<Rightarrow> server result" where
  "start_transmiter_task_cleanup s st =
     (let st' = st\<lparr>CONNECTION_POOL := (CONNECTION_POOL st)(s_path s := None),
                   sessions := filter (\<lambda>x. conn_id (conn (s_devtools x)) \<noteq> conn_id (conn (s_devtools s)))
                                 (sessions st)\<rparr>
      in case Close (s_web s) of
           Panic p \<Rightarrow> Panic p
         | Blocked \<Rightarrow> Blocked
         | Return w \<Rightarrow>
             (case Close (s_devtools s) of
                Panic p \<Rightarrow> Panic p
              | Blocked \<Rightarrow> Blocked
              | Return d \<Rightarrow> Return st'))"

text \<open>
  What happens to the process: a request arrives (with the outcome of its
  upgrade and, if a task is started, of its dial), or a session ends. Nothing
  happens in a process that has exited.
\<close>

datatype event =
    HttpRequest "websocket_Conn option" string "websocket_Conn option"
  | SessionOver session

definition server_step :: "event \<Rightarrow> server \<Rightarrow> server result" where
  "server_step ev st =
     (if \<not> serving st then Return st
      else (case ev of
              HttpRequest upgraded path dialed \<Rightarrow>
                (case websocket_handler upgraded path st of
                   (st', None) \<Rightarrow> Return st'
                 | (st', Some (devtools, p)) \<Rightarrow> start_transmiter_task_dial dialed devtools p st')
            | SessionOver s \<Rightarrow> start_transmiter_task_cleanup s st))"

fun server_run :: "server \<Rightarrow> event list \<Rightarrow> server result" where
  "server_run st [] = Return st"
| "server_run st (ev # evs) =
     (case server_step ev st of
        Panic p \<Rightarrow> Panic p
      | Blocked \<Rightarrow> Blocked
      | Return st' \<Rightarrow> server_run st' evs)"

subsection \<open>Well-formed connections and sequences of calls\<close>

text \<open>
  The flag and the two channels are set together, by \<open>NewMyWSConnection\<close> and by
  \<open>Close\<close>: a channel is closed exactly when the flag is set.
\<close>

definition conn_inv :: "MyWSConnection \<Rightarrow> bool" where
  "conn_inv c =
     (chan_closed (msg_sender c) = is_closed c \<and> chan_closed (msg_reciver c) = is_closed c)"

fun Close_times :: "nat \<Rightarrow> MyWSConnection \<Rightarrow> MyWSConnection result" where
  "Close_times 0 c = Return c"
| "Close_times (Suc n) c =
     (case Close c of
        Panic p \<Rightarrow> Panic p
      | Blocked \<Rightarrow> Blocked
      | Return c' \<Rightarrow> Close_times n c')"

text \<open>
  The calls that the tasks of the proxy make on one connection. \<open>conn_call\<close> is
  the connection after the call; a call that cannot proceed leaves the
  connection as it is, and the other tasks go on.
\<close>

datatype call =
    CallClose
  | CallWriteMessage string
  | CallReadMessage
  | CallReaderIter "string option"
  | CallWriterIter bool

definition after_iter :: "'a iter \<Rightarrow> 'a" where
  "after_iter i = (case i of Next x \<Rightarrow> x | Done x \<Rightarrow> x)"

definition conn_call :: "call \<Rightarrow> MyWSConnection \<Rightarrow> MyWSConnection result" where
  "conn_call k c =
     (case k of
        CallClose \<Rightarrow> Close c
      | CallWriteMessage msg \<Rightarrow>
          (case WriteMessage c msg of
             Panic p \<Rightarrow> Panic p | Blocked \<Rightarrow> Return c | Return (err, c') \<Rightarrow> Return c')
      | CallReadMessage \<Rightarrow>
          (case ReadMessage c of
             Panic p \<Rightarrow> Panic p | Blocked \<Rightarrow> Return c | Return (r, c') \<Rightarrow> Return c')
      | CallReaderIter received \<Rightarrow>
          (case start_reader_iter received c of
             Panic p \<Rightarrow> Panic p | Blocked \<Rightarrow> Return c | Return i \<Rightarrow> Return (after_iter i))
      | CallWriterIter sent \<Rightarrow>
          (case start_writer_iter sent c of
             Panic p \<Rightarrow> Panic p | Blocked \<Rightarrow> Return c | Return i \<Rightarrow> Return (after_iter i)))"

fun conn_run :: "MyWSConnection \<Rightarrow> call list \<Rightarrow> MyWSConnection result" where
  "conn_run c [] = Return c"
| "conn_run c (k # ks) =
     (case conn_call k c of
        Panic p \<Rightarrow> Panic p
      | Blocked \<Rightarrow> Blocked
      | Return c' \<Rightarrow> conn_run c' ks)"

subsection \<open>Decoding one known frame\<close>

text \<open>
  To run the web handler on a concrete frame, \<open>unmarshal_at frame v\<close> stands for
  \<open>json.Unmarshal\<close> at that frame only: it decodes \<open>frame\<close> to \<open>v\<close>, the value
  that package \<open>encoding/json\<close> gives for it, and reports an error elsewhere.
\<close>

definition unmarshal_at :: "string \<Rightarrow> DebuggerPaused \<Rightarrow> unmarshal" where
  "unmarshal_at frame v = (\<lambda>msg. if msg = frame then Some v else None)"

definition paused :: "string \<Rightarrow> string list \<Rightarrow> string list \<Rightarrow> DebuggerPaused" where
  "paused reason hit names =
     \<lparr>Method = ''Debugger.paused'',
      Params = \<lparr>Reason = reason, HitBreakpoints = hit,
                CallFrames = map (\<lambda>n. \<lparr>FunctionName = n\<rparr>) names\<rparr>\<rparr>"

subsection \<open>Concrete connections and frames\<close>

text \<open>
  Two sockets, the connections made from them, and the frames of the scenarios
  that the theorems below are run on.
\<close>

definition ws_devtools :: websocket_Conn where
  "ws_devtools = \<lparr>conn_id = 1, conn_closed = False\<rparr>"

definition ws_web :: websocket_Conn where
  "ws_web = \<lparr>conn_id = 2, conn_closed = False\<rparr>"

definition devtools0 :: MyWSConnection where
  "devtools0 = NewMyWSConnection ''devtools'' ws_devtools"

definition web0 :: MyWSConnection where
  "web0 = NewMyWSConnection ''web'' ws_web"

definition web0_closed :: MyWSConnection where
  "web0_closed =
     \<lparr>Name = ''web'', conn = \<lparr>conn_id = 2, conn_closed = True\<rparr>,
      msg_sender = \<lparr>buf = [], cap = buffer_size, chan_closed = True\<rparr>,
      msg_reciver = \<lparr>buf = [], cap = buffer_size, chan_closed = True\<rparr>,
      is_closed = True\<rparr>"

definition cinfo_web :: ConnectionInfo where
  "cinfo_web = \<lparr>cid = ''/p/1'', des = ''web -> devtools''\<rparr>"

definition cinfo_devtools :: ConnectionInfo where
  "cinfo_devtools = \<lparr>cid = ''/p/1'', des = ''devtools -> web''\<rparr>"

definition trap_frame :: string where
  \<open>trap_frame = ''{"method":"Debugger.paused","params":{"reason":"other","hitBreakpoints":[],"callFrames":[{"functionName":"trap_xyz"}]}}''\<close>

definition trap_echo_frame :: string where
  \<open>trap_echo_frame = ''{"id":0,"method":"Debugger.paused","params":{"reason":"other","hitBreakpoints":[],"callFrames":[{"functionName":"trap_xyz"}]}}''\<close>

definition sentinel_frame :: string where
  \<open>sentinel_frame = ''{"method":"Debugger.paused","params":{"reason":"other","hitBreakpoints":[],"callFrames":[{"functionName":"lovedebug"},{"functionName":"userCode"}]}}''\<close>

definition sentinel_echo_frame :: string where
  \<open>sentinel_echo_frame = ''{"id":0,"method":"Debugger.paused","params":{"reason":"other","hitBreakpoints":[],"callFrames":[{"functionName":"lovedebug"},{"functionName":"userCode"}]}}''\<close>

definition no_callFrames_frame :: string where
  \<open>no_callFrames_frame = ''{"method":"Debugger.paused","params":{"reason":"other","hitBreakpoints":[],"callFrames":[]}}''\<close>

definition response_frame :: string where
  \<open>response_frame = ''{"id":0,"result":{}}''\<close>

definition overlay_frame :: string where
  \<open>overlay_frame = ''{"id":7,"method":"Overlay.setPausedInDebuggerMessage","params":{"message":"Paused in debugger, still Paused in debugger"}}''\<close>

definition enable_frame :: string where
  \<open>enable_frame = ''{"id":8,"method":"Debugger.enable","params":{}}''\<close>

definition ws_devtools2 :: websocket_Conn where
  "ws_devtools2 = \<lparr>conn_id = 3, conn_closed = False\<rparr>"

text \<open>The web connection with one frame waiting on its inbound channel.\<close>

definition web_holding :: "string \<Rightarrow> MyWSConnection" where
  "web_holding frame = web0\<lparr>msg_reciver := (msg_reciver web0)\<lparr>buf := [frame]\<rparr>\<rparr>"

text \<open>A web connection with one frame queued in each direction, and the same after \<open>Close\<close>.\<close>

definition web1 :: MyWSConnection where
  "web1 = web0\<lparr>msg_sender := (msg_sender web0)\<lparr>buf := [enable_frame]\<rparr>,
               msg_reciver := (msg_reciver web0)\<lparr>buf := [response_frame]\<rparr>\<rparr>"

definition web1_closed :: MyWSConnection where
  "web1_closed =
     \<lparr>Name = ''web'', conn = \<lparr>conn_id = 2, conn_closed = True\<rparr>,
      msg_sender = \<lparr>buf = [enable_frame], cap = buffer_size, chan_closed = True\<rparr>,
      msg_reciver = \<lparr>buf = [response_frame], cap = buffer_size, chan_closed = True\<rparr>,
      is_closed = True\<rparr>"

text \<open>The process with one session in progress on the path \<open>/p/1\<close>.\<close>

definition session1 :: session where
  "session1 = \<lparr>s_path = ''/p/1'', s_devtools = devtools0, s_web = web0\<rparr>"

definition server1 :: server where
  "server1 = \<lparr>CONNECTION_POOL = Map.empty, sessions = [session1], exit_code = None\<rparr>"

section \<open>Properties\<close>

subsection \<open>Searching and replacing\<close>

text \<open>
  \<open>strings_Index\<close> finds the least offset at which \<open>substr\<close> starts, so
  \<open>strings_Contains\<close> is the substring relation and a single replacement rewrites
  the leftmost occurrence.
\<close>

lemma strings_Index_Some_0: "prefix substr s \<Longrightarrow> strings_Index s substr = Some 0"
  by (cases s) auto

lemma strings_Index_bound: "strings_Index s substr = Some i \<Longrightarrow> i \<le> length s"
  by (induction s arbitrary: i) (auto split: if_splits)

lemma strings_Index_prefix: "strings_Index s substr = Some i \<Longrightarrow> prefix substr (drop i s)"
  by (induction s arbitrary: i) (auto split: if_splits)

lemma strings_Index_least:
  "strings_Index s substr = Some i \<Longrightarrow> j < i \<Longrightarrow> \<not> prefix substr (drop j s)"
proof (induction s arbitrary: i j)
  case Nil
  then show ?case by (simp split: if_splits)
next
  case (Cons c cs)
  show ?case
  proof (cases "prefix substr (c # cs)")
    case True
    with Cons.prems show ?thesis by simp
  next
    case False
    with Cons.prems obtain i' where i': "strings_Index cs substr = Some i'" "i = Suc i'"
      by auto
    show ?thesis
    proof (cases j)
      case 0
      with False show ?thesis by simp
    next
      case (Suc j')
      with Cons.prems i' have "j' < i'" by simp
      from Cons.IH [OF i'(1) this] Suc show ?thesis by simp
    qed
  qed
qed

lemma strings_Index_None:
  "strings_Index s substr = None \<Longrightarrow> \<not> prefix substr (drop j s)"
proof (induction s arbitrary: j)
  case Nil
  then show ?case by (simp split: if_splits)
next
  case (Cons c cs)
  then show ?case by (cases j) (auto split: if_splits)
qed

lemma strings_Index_first:
  assumes "\<forall>j<length pre. \<not> prefix substr (drop j (pre @ substr @ post))"
  shows "strings_Index (pre @ substr @ post) substr = Some (length pre)"
proof (cases "strings_Index (pre @ substr @ post) substr")
  case None
  from strings_Index_None [OF this, of "length pre"] show ?thesis by simp
next
  case (Some i)
  have "\<not> length pre < i"
  proof
    assume "length pre < i"
    from strings_Index_least [OF Some this] show False by simp
  qed
  moreover have "\<not> i < length pre"
    using assms strings_Index_prefix [OF Some] by blast
  ultimately show ?thesis using Some by simp
qed

lemma strings_Contains_sublist: "strings_Contains s substr = sublist substr s"
proof
  assume "strings_Contains s substr"
  then obtain i where i: "strings_Index s substr = Some i"
    by (auto simp: strings_Contains_def)
  from strings_Index_prefix [OF i] obtain post where "drop i s = substr @ post"
    by (auto simp: prefix_def)
  then have "s = take i s @ substr @ post"
    by (metis append_take_drop_id)
  then show "sublist substr s" unfolding sublist_def by blast
next
  assume "sublist substr s"
  then obtain pre post where s: "s = pre @ substr @ post"
    by (auto simp: sublist_def)
  have "strings_Index s substr \<noteq> None"
  proof
    assume "strings_Index s substr = None"
    from strings_Index_None [OF this, of "length pre"] s show False by simp
  qed
  then show "strings_Contains s substr" by (simp add: strings_Contains_def)
qed

lemma strings_Contains_mid: "strings_Contains (pre @ substr @ post) substr"
  unfolding strings_Contains_sublist sublist_def by blast

lemma strings_Replace_first:
  assumes "\<forall>j<length pre. \<not> prefix old (drop j (pre @ old @ post))"
  shows "strings_Replace (pre @ old @ post) old new 1 = pre @ new @ post"
  using strings_Index_first [OF assms] by simp

lemma strings_Replace_absent:
  "\<not> strings_Contains s old \<Longrightarrow> strings_Replace s old new n = s"
  by (cases n) (simp_all add: strings_Contains_def)

subsection \<open>Writing to a connection\<close>

lemma WriteMessage_open:
  "\<not> is_closed c \<Longrightarrow> conn_inv c \<Longrightarrow> length (buf (msg_sender c)) < cap (msg_sender c)
   \<Longrightarrow> WriteMessage c msg =
        Return (None, c\<lparr>msg_sender := (msg_sender c)\<lparr>buf := buf (msg_sender c) @ [msg]\<rparr>\<rparr>)"
  by (simp add: WriteMessage_def is_Closed_def chan_send_def conn_inv_def)

lemma WriteMessage_closed:
  "is_closed c \<Longrightarrow> WriteMessage c msg = Return (Some (closed_error c), c)"
  by (simp add: WriteMessage_def is_Closed_def)

text \<open>A write fails exactly on a connection whose flag is set.\<close>

lemma WriteMessage_error_iff:
  "WriteMessage c msg = Return (Some err, c') \<longleftrightarrow> is_closed c \<and> err = closed_error c \<and> c' = c"
  by (auto simp: WriteMessage_def is_Closed_def split: result.splits)

subsection \<open>Facts about the concrete connections and frames\<close>

lemma web0_open:
  "\<not> is_closed web0" "conn_inv web0" "length (buf (msg_sender web0)) < cap (msg_sender web0)"
  by (simp_all add: web0_def NewMyWSConnection_def make_chan_def buffer_size_def conn_inv_def)

lemma web0_buf: "buf (msg_sender web0) = []" "buf (msg_reciver web0) = []"
  by (simp_all add: web0_def NewMyWSConnection_def make_chan_def)

lemma Close_web0: "Close web0 = Return web0_closed"
  by (simp add: Close_def web0_def web0_closed_def NewMyWSConnection_def make_chan_def
      chan_close_def ws_web_def websocket_Close_def)

lemma web0_closed_flag: "is_closed web0_closed"
  by (simp add: web0_closed_def)

lemma web_holding_open:
  "\<not> is_closed (web_holding frame)" "conn_inv (web_holding frame)"
  "length (buf (msg_sender (web_holding frame))) < cap (msg_sender (web_holding frame))"
  "buf (msg_reciver (web_holding frame)) = [frame]"
  by (simp_all add: web_holding_def web0_def NewMyWSConnection_def make_chan_def buffer_size_def
      conn_inv_def)

lemma web_holding_taken:
  "(web_holding frame)\<lparr>msg_reciver := (msg_reciver (web_holding frame))\<lparr>buf := []\<rparr>\<rparr> = web0"
  by (simp add: web_holding_def web0_def NewMyWSConnection_def make_chan_def)

lemma trap_frame_id0: \<open>\<not> strings_Contains trap_frame ''"id":0''\<close>
  by (simp add: trap_frame_def strings_Contains_def)

lemma trap_echo_frame_id0: \<open>strings_Contains trap_echo_frame ''"id":0''\<close>
  by (simp add: trap_echo_frame_def strings_Contains_def)

lemma sentinel_frame_id0: \<open>\<not> strings_Contains sentinel_frame ''"id":0''\<close>
  by (simp add: sentinel_frame_def strings_Contains_def)

lemma sentinel_echo_frame_id0: \<open>strings_Contains sentinel_echo_frame ''"id":0''\<close>
  by (simp add: sentinel_echo_frame_def strings_Contains_def)

lemma no_callFrames_frame_id0: \<open>\<not> strings_Contains no_callFrames_frame ''"id":0''\<close>
  by (simp add: no_callFrames_frame_def strings_Contains_def)

subsection \<open>A pass of the forwarding loop\<close>

text \<open>
  When a frame waits on the inbound channel of an open source connection, the
  pass takes it and gives it to the handler; if the handler answers
  \<open>is_ok = false\<close> the destination is left as it is.
\<close>

lemma transimiter_iter_dropped:
  assumes "\<not> is_closed from_conn"
    and "buf (msg_reciver from_conn) = msg # rest"
    and "h (from_conn\<lparr>msg_reciver := (msg_reciver from_conn)\<lparr>buf := rest\<rparr>\<rparr>) cinfo msg
           = Return ((msg', False), f')"
  shows "transimiter_iter (Some h) from_conn to_conn cinfo = Return (Next (f', to_conn))"
  using assms
  by (simp add: transimiter_iter_def ReadMessage_def ReadMessage_recv_def is_Closed_def
      chan_recv_def)

subsection \<open>The web handler on Debugger.paused\<close>

text \<open>
  C2, the trap-resume rule. As stated, for every frame that decodes to a
  \<open>Debugger.paused\<close> with reason \<open>other\<close>, no hit breakpoint and a first call
  frame that is not the configured debugger, the rule fails twice: a frame that
  also contains \<open>"id":0\<close> is dropped by the echo rule before it is decoded, and
  nothing is written; and on a closed web connection the write fails and the
  frame is forwarded. What holds: when the frame does not contain \<open>"id":0\<close> and
  the web connection is open with room in its outbound channel, the handler
  returns \<open>is_ok = false\<close> and has appended exactly the \<open>Debugger.resume\<close> frame
  to the outbound channel of the web connection; the pass of the forwarding loop
  that reads the frame from the web side leaves the DevTools connection as it is.
\<close>

theorem trap_resume_rule:
  assumes \<open>\<not> strings_Contains msg ''"id":0''\<close>
    and "json_Unmarshal msg = Some p"
    and "Method p = ''Debugger.paused''"
    and "Reason (Params p) = ''other''"
    and "HitBreakpoints (Params p) = []"
    and "CallFrames (Params p) = f # fs"
    and "FunctionName f \<noteq> name"
    and "\<not> is_closed web" and "conn_inv web"
    and "length (buf (msg_sender web)) < cap (msg_sender web)"
  shows "handle_msg_from_web json_Unmarshal name web cinfo msg =
           Return (([], False),
                   web\<lparr>msg_sender := (msg_sender web)\<lparr>buf := buf (msg_sender web) @ [resume_frame]\<rparr>\<rparr>)
     \<and> (buf (msg_reciver web) = msg # rest \<longrightarrow>
          transimiter_iter (Some (handle_msg_from_web json_Unmarshal name)) web devtools cinfo =
            Return (Next (web\<lparr>msg_sender := (msg_sender web)\<lparr>buf := buf (msg_sender web) @ [resume_frame]\<rparr>,
                              msg_reciver := (msg_reciver web)\<lparr>buf := rest\<rparr>\<rparr>,
                          devtools)))"
proof -
  have h: "handle_msg_from_web json_Unmarshal name w cinfo msg =
             Return (([], False),
                     w\<lparr>msg_sender := (msg_sender w)\<lparr>buf := buf (msg_sender w) @ [resume_frame]\<rparr>\<rparr>)"
    if "\<not> is_closed w" and "conn_inv w" and "length (buf (msg_sender w)) < cap (msg_sender w)"
    for w
    using assms(1-7) that
    by (simp add: handle_msg_from_web_def process_debugger_paused_def WriteMessage_open)
  have "transimiter_iter (Some (handle_msg_from_web json_Unmarshal name)) web devtools cinfo =
          Return (Next (web\<lparr>msg_sender := (msg_sender web)\<lparr>buf := buf (msg_sender web) @ [resume_frame]\<rparr>,
                            msg_reciver := (msg_reciver web)\<lparr>buf := rest\<rparr>\<rparr>,
                        devtools))"
    if b: "buf (msg_reciver web) = msg # rest"
  proof -
    let ?w = "web\<lparr>msg_reciver := (msg_reciver web)\<lparr>buf := rest\<rparr>\<rparr>"
    have "\<not> is_closed ?w" "conn_inv ?w" "length (buf (msg_sender ?w)) < cap (msg_sender ?w)"
      using assms(8-10) by (simp_all add: conn_inv_def)
    from transimiter_iter_dropped
      [where h = "handle_msg_from_web json_Unmarshal name", OF assms(8) b h [OF this]]
    show ?thesis
      by simp
  qed
  with h [OF assms(8-10)] show ?thesis by blast
qed

theorem trap_resume_rule_witness:
  \<open>handle_msg_from_web (unmarshal_at trap_frame (paused ''other'' [] [''trap_xyz''])) ''lovedebug''
      web0 cinfo_web trap_frame =
    Return (([], False), web0\<lparr>msg_sender := (msg_sender web0)\<lparr>buf := [resume_frame]\<rparr>\<rparr>)
   \<and> transimiter_iter
        (Some (handle_msg_from_web (unmarshal_at trap_frame (paused ''other'' [] [''trap_xyz''])) ''lovedebug''))
        (web_holding trap_frame) devtools0 cinfo_web =
      Return (Next (web0\<lparr>msg_sender := (msg_sender web0)\<lparr>buf := [resume_frame]\<rparr>\<rparr>, devtools0))\<close>
proof -
  let ?p = "paused ''other'' [] [''trap_xyz'']"
  let ?um = "unmarshal_at trap_frame ?p"
  have d: "?um trap_frame = Some ?p" "Method ?p = ''Debugger.paused''" "Reason (Params ?p) = ''other''"
    "HitBreakpoints (Params ?p) = []" "CallFrames (Params ?p) = \<lparr>FunctionName = ''trap_xyz''\<rparr> # []"
    "FunctionName \<lparr>FunctionName = ''trap_xyz''\<rparr> \<noteq> ''lovedebug''"
    by (simp_all add: unmarshal_at_def paused_def)
  note r = trap_resume_rule [where json_Unmarshal = ?um and p = ?p and name = "''lovedebug''"
      and cinfo = cinfo_web and devtools = devtools0, OF trap_frame_id0 d]
  from r [OF web0_open, of "[]"]
  have 1: "handle_msg_from_web ?um ''lovedebug'' web0 cinfo_web trap_frame =
      Return (([], False), web0\<lparr>msg_sender := (msg_sender web0)\<lparr>buf := [resume_frame]\<rparr>\<rparr>)"
    by (simp add: web0_buf)
  from r [OF web_holding_open(1-3), of trap_frame "[]"] web_holding_open(4)
  have 2: "transimiter_iter (Some (handle_msg_from_web ?um ''lovedebug'')) (web_holding trap_frame)
       devtools0 cinfo_web =
      Return (Next (web0\<lparr>msg_sender := (msg_sender web0)\<lparr>buf := [resume_frame]\<rparr>\<rparr>, devtools0))"
    by (simp add: web_holding_def web0_def NewMyWSConnection_def make_chan_def)
  from 1 2 show ?thesis by blast
qed

text \<open>
  The claim as stated fails on \<open>trap_echo_frame\<close>, which decodes as the claim
  asks and is dropped with nothing written, and on \<open>trap_frame\<close> when the web
  connection is closed, where the frame is forwarded.
\<close>

theorem trap_resume_rule_counterexample:
  \<open>handle_msg_from_web (unmarshal_at trap_echo_frame (paused ''other'' [] [''trap_xyz''])) ''lovedebug''
      web0 cinfo_web trap_echo_frame = Return (([], False), web0)
   \<and> buf (msg_sender web0) = []
   \<and> handle_msg_from_web (unmarshal_at trap_frame (paused ''other'' [] [''trap_xyz''])) ''lovedebug''
      web0_closed cinfo_web trap_frame = Return ((trap_frame, True), web0_closed)\<close>
  by (simp add: handle_msg_from_web_def trap_echo_frame_id0 trap_frame_id0 sentinel_echo_frame_id0 sentinel_frame_id0 no_callFrames_frame_id0 unmarshal_at_def paused_def
      process_debugger_paused_def WriteMessage_closed web0_closed_flag web0_buf)

text \<open>
  C3, the sentinel step-out rule. As stated it fails like C2, on a frame that
  contains \<open>"id":0\<close> and on a closed web connection. What holds: when the frame
  does not contain \<open>"id":0\<close>, decodes to a \<open>Debugger.paused\<close> with reason \<open>other\<close>,
  no hit breakpoint and a first call frame named as the configured debugger, and
  the web connection is open with room in its outbound channel, the handler
  returns \<open>is_ok = false\<close> and has appended exactly the \<open>Debugger.stepOut\<close> frame
  to the outbound channel of the web connection; the pass of the forwarding loop
  that reads the frame from the web side leaves the DevTools connection as it is.
\<close>

theorem sentinel_step_out_rule:
  assumes \<open>\<not> strings_Contains msg ''"id":0''\<close>
    and "json_Unmarshal msg = Some p"
    and "Method p = ''Debugger.paused''"
    and "Reason (Params p) = ''other''"
    and "HitBreakpoints (Params p) = []"
    and "CallFrames (Params p) = f # fs"
    and "FunctionName f = name"
    and "\<not> is_closed web" and "conn_inv web"
    and "length (buf (msg_sender web)) < cap (msg_sender web)"
  shows "handle_msg_from_web json_Unmarshal name web cinfo msg =
           Return (([], False),
                   web\<lparr>msg_sender := (msg_sender web)\<lparr>buf := buf (msg_sender web) @ [stepOut_frame]\<rparr>\<rparr>)
     \<and> (buf (msg_reciver web) = msg # rest \<longrightarrow>
          transimiter_iter (Some (handle_msg_from_web json_Unmarshal name)) web devtools cinfo =
            Return (Next (web\<lparr>msg_sender := (msg_sender web)\<lparr>buf := buf (msg_sender web) @ [stepOut_frame]\<rparr>,
                              msg_reciver := (msg_reciver web)\<lparr>buf := rest\<rparr>\<rparr>,
                          devtools)))"
proof -
  have h: "handle_msg_from_web json_Unmarshal name w cinfo msg =
             Return (([], False),
                     w\<lparr>msg_sender := (msg_sender w)\<lparr>buf := buf (msg_sender w) @ [stepOut_frame]\<rparr>\<rparr>)"
    if "\<not> is_closed w" and "conn_inv w" and "length (buf (msg_sender w)) < cap (msg_sender w)"
    for w
    using assms(1-7) that
    by (simp add: handle_msg_from_web_def process_debugger_paused_def WriteMessage_open)
  have "transimiter_iter (Some (handle_msg_from_web json_Unmarshal name)) web devtools cinfo =
          Return (Next (web\<lparr>msg_sender := (msg_sender web)\<lparr>buf := buf (msg_sender web) @ [stepOut_frame]\<rparr>,
                            msg_reciver := (msg_reciver web)\<lparr>buf := rest\<rparr>\<rparr>,
                        devtools))"
    if b: "buf (msg_reciver web) = msg # rest"
  proof -
    let ?w = "web\<lparr>msg_reciver := (msg_reciver web)\<lparr>buf := rest\<rparr>\<rparr>"
    have "\<not> is_closed ?w" "conn_inv ?w" "length (buf (msg_sender ?w)) < cap (msg_sender ?w)"
      using assms(8-10) by (simp_all add: conn_inv_def)
    from transimiter_iter_dropped
      [where h = "handle_msg_from_web json_Unmarshal name", OF assms(8) b h [OF this]]
    show ?thesis
      by simp
  qed
  with h [OF assms(8-10)] show ?thesis by blast
qed

theorem sentinel_step_out_rule_witness:
  \<open>handle_msg_from_web (unmarshal_at sentinel_frame (paused ''other'' [] [''lovedebug'', ''userCode''])) ''lovedebug''
      web0 cinfo_web sentinel_frame =
    Return (([], False), web0\<lparr>msg_sender := (msg_sender web0)\<lparr>buf := [stepOut_frame]\<rparr>\<rparr>)
   \<and> transimiter_iter
        (Some (handle_msg_from_web (unmarshal_at sentinel_frame (paused ''other'' [] [''lovedebug'', ''userCode''])) ''lovedebug''))
        (web_holding sentinel_frame) devtools0 cinfo_web =
      Return (Next (web0\<lparr>msg_sender := (msg_sender web0)\<lparr>buf := [stepOut_frame]\<rparr>\<rparr>, devtools0))\<close>
proof -
  let ?p = "paused ''other'' [] [''lovedebug'', ''userCode'']"
  let ?um = "unmarshal_at sentinel_frame ?p"
  have d: "?um sentinel_frame = Some ?p" "Method ?p = ''Debugger.paused''" "Reason (Params ?p) = ''other''"
    "HitBreakpoints (Params ?p) = []" "CallFrames (Params ?p) = \<lparr>FunctionName = ''lovedebug''\<rparr> # [\<lparr>FunctionName = ''userCode''\<rparr>]"
    "FunctionName \<lparr>FunctionName = ''lovedebug''\<rparr> = ''lovedebug''"
    by (simp_all add: unmarshal_at_def paused_def)
  note r = sentinel_step_out_rule [where json_Unmarshal = ?um and p = ?p and name = "''lovedebug''"
      and cinfo = cinfo_web and devtools = devtools0, OF sentinel_frame_id0 d]
  from r [OF web0_open, of "[]"]
  have 1: "handle_msg_from_web ?um ''lovedebug'' web0 cinfo_web sentinel_frame =
      Return (([], False), web0\<lparr>msg_sender := (msg_sender web0)\<lparr>buf := [stepOut_frame]\<rparr>\<rparr>)"
    by (simp add: web0_buf)
  from r [OF web_holding_open(1-3), of sentinel_frame "[]"] web_holding_open(4)
  have 2: "transimiter_iter (Some (handle_msg_from_web ?um ''lovedebug'')) (web_holding sentinel_frame)
       devtools0 cinfo_web =
      Return (Next (web0\<lparr>msg_sender := (msg_sender web0)\<lparr>buf := [stepOut_frame]\<rparr>\<rparr>, devtools0))"
    by (simp add: web_holding_def web0_def NewMyWSConnection_def make_chan_def)
  from 1 2 show ?thesis by blast
qed

text \<open>
  The claim as stated fails on \<open>sentinel_echo_frame\<close>, which decodes as the
  claim asks and is dropped with nothing written, and on \<open>sentinel_frame\<close> when
  the web connection is closed, where the frame is forwarded.
\<close>

theorem sentinel_step_out_rule_counterexample:
  \<open>handle_msg_from_web (unmarshal_at sentinel_echo_frame (paused ''other'' [] [''lovedebug'', ''userCode'']))
      ''lovedebug'' web0 cinfo_web sentinel_echo_frame = Return (([], False), web0)
   \<and> buf (msg_sender web0) = []
   \<and> handle_msg_from_web (unmarshal_at sentinel_frame (paused ''other'' [] [''lovedebug'', ''userCode'']))
      ''lovedebug'' web0_closed cinfo_web sentinel_frame = Return ((sentinel_frame, True), web0_closed)\<close>
  by (simp add: handle_msg_from_web_def sentinel_echo_frame_id0 sentinel_frame_id0 unmarshal_at_def
      paused_def process_debugger_paused_def WriteMessage_closed web0_closed_flag web0_buf)

text \<open>With reason \<open>other\<close> and no hit breakpoint, an empty \<open>CallFrames\<close> panics.\<close>

lemma process_debugger_paused_no_frames:
  assumes "Reason params = ''other''" and "HitBreakpoints params = []" and "CallFrames params = []"
  shows "process_debugger_paused name from_conn cinfo params = Panic (IndexOutOfRange 0 0)"
  using assms by (simp add: process_debugger_paused_def)

text \<open>
  C5, totality of the paused classification. The claim asks that
  \<open>callFrames[0]\<close> be a safe access also when \<open>callFrames\<close> is empty. The handler
  indexes the slice without testing its length: on \<open>no_callFrames_frame\<close>, which
  decodes to reason \<open>other\<close>, no hit breakpoint and no call frame, it panics.
\<close>

theorem paused_without_callFrames_panics:
  "handle_msg_from_web (unmarshal_at no_callFrames_frame (paused ''other'' [] [])) ''lovedebug''
      web0 cinfo_web no_callFrames_frame = Panic (IndexOutOfRange 0 0)"
  by (simp add: handle_msg_from_web_def trap_echo_frame_id0 trap_frame_id0 sentinel_echo_frame_id0 sentinel_frame_id0 no_callFrames_frame_id0 unmarshal_at_def paused_def
      process_debugger_paused_def)

text \<open>
  C9, the fallback when the injection fails. If the write of the synthetic
  frame (\<open>Debugger.stepOut\<close> for the configured debugger, \<open>Debugger.resume\<close>
  otherwise) returns an error, \<open>process_debugger_paused\<close> returns false, and the
  web handler returns the original frame with \<open>is_ok = true\<close>: it is forwarded.
\<close>

theorem injection_failure_fallback:
  assumes "Reason params = ''other''"
    and "HitBreakpoints params = []"
    and "CallFrames params = f # fs"
    and "WriteMessage web (if FunctionName f = name then stepOut_frame else resume_frame)
           = Return (Some err, web')"
  shows \<open>process_debugger_paused name web cinfo params = Return (False, web')
     \<and> (\<not> strings_Contains msg ''"id":0''
          \<and> json_Unmarshal msg = Some \<lparr>Method = ''Debugger.paused'', Params = params\<rparr>
        \<longrightarrow> handle_msg_from_web json_Unmarshal name web cinfo msg = Return ((msg, True), web'))\<close>
proof -
  have "process_debugger_paused name web cinfo params = Return (False, web')"
    using assms by (simp add: process_debugger_paused_def split: if_splits)
  then show ?thesis
    by (simp add: handle_msg_from_web_def)
qed

theorem injection_failure_fallback_witness:
  \<open>WriteMessage web0_closed resume_frame = Return (Some ''web connection closed'', web0_closed)
   \<and> process_debugger_paused ''lovedebug'' web0_closed cinfo_web (Params (paused ''other'' [] [''trap_xyz'']))
        = Return (False, web0_closed)
   \<and> handle_msg_from_web (unmarshal_at trap_frame (paused ''other'' [] [''trap_xyz''])) ''lovedebug''
        web0_closed cinfo_web trap_frame = Return ((trap_frame, True), web0_closed)\<close>
proof -
  have w: "WriteMessage web0_closed resume_frame = Return (Some ''web connection closed'', web0_closed)"
    by (simp add: WriteMessage_closed web0_closed_flag closed_error_def) (simp add: web0_closed_def)
  from injection_failure_fallback [where params = "Params (paused ''other'' [] [''trap_xyz''])"
      and f = "\<lparr>FunctionName = ''trap_xyz''\<rparr>" and fs = "[]" and name = "''lovedebug''"
      and web = web0_closed and web' = web0_closed and err = "''web connection closed''"
      and msg = trap_frame and cinfo = cinfo_web
      and json_Unmarshal = "unmarshal_at trap_frame (paused ''other'' [] [''trap_xyz''])"]
  show ?thesis
    using w by (simp add: paused_def trap_echo_frame_id0 trap_frame_id0 sentinel_echo_frame_id0 sentinel_frame_id0 no_callFrames_frame_id0 unmarshal_at_def)
qed

subsection \<open>The echo-drop rule\<close>

text \<open>
  C6. Every frame from the web side that contains \<open>"id":0\<close> anywhere, whatever
  surrounds it, is dropped: the handler returns \<open>is_ok = false\<close> and leaves the
  web connection as it found it, whatever \<open>json.Unmarshal\<close> would give, since
  the frame is not decoded. A pass of the forwarding loop from the web side that
  reads such a frame takes it off the inbound channel and leaves the DevTools
  connection untouched: the frame is not forwarded.
\<close>

theorem echo_drop_rule:
  \<open>handle_msg_from_web json_Unmarshal name web cinfo (pre @ ''"id":0'' @ post) = Return (([], False), web)
   \<and> (\<not> is_closed web \<and> buf (msg_reciver web) = (pre @ ''"id":0'' @ post) # rest \<longrightarrow>
        transimiter_iter (Some (handle_msg_from_web json_Unmarshal name)) web devtools cinfo
          = Return (Next (web\<lparr>msg_reciver := (msg_reciver web)\<lparr>buf := rest\<rparr>\<rparr>, devtools)))\<close>
proof -
  define msg where \<open>msg = pre @ ''"id":0'' @ post\<close>
  have \<open>strings_Contains msg ''"id":0''\<close>
    unfolding msg_def by (rule strings_Contains_mid)
  then have h: "handle_msg_from_web json_Unmarshal name w cinfo msg = Return (([], False), w)" for w
    by (simp add: handle_msg_from_web_def)
  have "handle_msg_from_web json_Unmarshal name web cinfo msg = Return (([], False), web)
     \<and> (\<not> is_closed web \<and> buf (msg_reciver web) = msg # rest \<longrightarrow>
          transimiter_iter (Some (handle_msg_from_web json_Unmarshal name)) web devtools cinfo
            = Return (Next (web\<lparr>msg_reciver := (msg_reciver web)\<lparr>buf := rest\<rparr>\<rparr>, devtools)))"
    by (simp add: h transimiter_iter_def ReadMessage_def ReadMessage_recv_def is_Closed_def
        chan_recv_def)
  then show ?thesis unfolding msg_def .
qed

text \<open>
  The response of the browser to an injected command, \<open>response_frame\<close>,
  waiting on the inbound channel of the web connection: one pass of the loop
  consumes it and writes nothing to the DevTools connection.
\<close>

theorem echo_drop_rule_witness:
  \<open>handle_msg_from_web (unmarshal_at response_frame (DebuggerPaused.make [] (DebuggerPausedParams.make [] [] [])))
      ''lovedebug'' web0 cinfo_web response_frame = Return (([], False), web0)
   \<and> \<not> is_closed (web0\<lparr>msg_reciver := (msg_reciver web0)\<lparr>buf := [response_frame]\<rparr>\<rparr>)
   \<and> transimiter_iter
        (Some (handle_msg_from_web
                 (unmarshal_at response_frame (DebuggerPaused.make [] (DebuggerPausedParams.make [] [] [])))
                 ''lovedebug''))
        (web0\<lparr>msg_reciver := (msg_reciver web0)\<lparr>buf := [response_frame]\<rparr>\<rparr>) devtools0 cinfo_web
      = Return (Next (web0, devtools0))\<close>
proof -
  let ?um = "unmarshal_at response_frame (DebuggerPaused.make [] (DebuggerPausedParams.make [] [] []))"
  let ?web = "web0\<lparr>msg_reciver := (msg_reciver web0)\<lparr>buf := [response_frame]\<rparr>\<rparr>"
  have r: \<open>response_frame = ''{'' @ ''"id":0'' @ '',"result":{}}''\<close>
    by (simp add: response_frame_def)
  have o: "\<not> is_closed ?web" "buf (msg_reciver ?web) = response_frame # []"
    by (simp_all add: web0_open)
  have w: "?web\<lparr>msg_reciver := (msg_reciver ?web)\<lparr>buf := []\<rparr>\<rparr> = web0"
    by (simp add: web0_def NewMyWSConnection_def make_chan_def)
  from echo_drop_rule [where pre = "''{''" and post = \<open>'',"result":{}}''\<close> and rest = "[]"
      and json_Unmarshal = ?um and name = "''lovedebug''" and cinfo = cinfo_web
      and devtools = devtools0, folded r]
  have "handle_msg_from_web ?um ''lovedebug'' web cinfo_web response_frame = Return (([], False), web)
     \<and> (\<not> is_closed web \<and> buf (msg_reciver web) = [response_frame] \<longrightarrow>
          transimiter_iter (Some (handle_msg_from_web ?um ''lovedebug'')) web devtools0 cinfo_web
            = Return (Next (web\<lparr>msg_reciver := (msg_reciver web)\<lparr>buf := []\<rparr>\<rparr>, devtools0)))" for web
    .
  from this [of web0] this [of ?web] o w show ?thesis
    by simp
qed

subsection \<open>The DevTools handler\<close>

text \<open>
  C7. For every frame the DevTools handler returns \<open>is_ok = true\<close> and hands
  back the connection it was given, so it writes nothing to its source. A frame
  that does not contain \<open>Overlay.setPausedInDebuggerMessage\<close> is returned as it
  is, and so is one that does not contain \<open>Paused in debugger\<close>. In a frame that
  contains \<open>Overlay.setPausedInDebuggerMessage\<close>, the leftmost occurrence of
  \<open>Paused in debugger\<close> is replaced by \<open>Paused in debugger - Surprise\<close> followed
  by the author string; what stands before and after it, later occurrences
  included, is kept.
\<close>

theorem devtools_handler_rule:
  "(\<exists>msg'. handle_msg_from_devtools from_conn cinfo msg = Return ((msg', True), from_conn))
   \<and> (\<not> sublist ''Overlay.setPausedInDebuggerMessage'' msg \<longrightarrow>
        handle_msg_from_devtools from_conn cinfo msg = Return ((msg, True), from_conn))
   \<and> (\<not> sublist ''Paused in debugger'' msg \<longrightarrow>
        handle_msg_from_devtools from_conn cinfo msg = Return ((msg, True), from_conn))
   \<and> (sublist ''Overlay.setPausedInDebuggerMessage'' msg
        \<and> msg = pre @ ''Paused in debugger'' @ post
        \<and> (\<forall>j<length pre. \<not> prefix ''Paused in debugger'' (drop j msg)) \<longrightarrow>
        handle_msg_from_devtools from_conn cinfo msg
          = Return ((pre @ (''Paused in debugger - Surprise '' @ Author) @ post, True), from_conn))"
proof (intro conjI impI)
  show "\<exists>msg'. handle_msg_from_devtools from_conn cinfo msg = Return ((msg', True), from_conn)"
    by (simp add: handle_msg_from_devtools_def Let_def)
next
  assume "\<not> sublist ''Overlay.setPausedInDebuggerMessage'' msg"
  then show "handle_msg_from_devtools from_conn cinfo msg = Return ((msg, True), from_conn)"
    by (simp add: handle_msg_from_devtools_def strings_Contains_sublist)
next
  assume "\<not> sublist ''Paused in debugger'' msg"
  then have "\<not> strings_Contains msg ''Paused in debugger''"
    by (simp add: strings_Contains_sublist)
  then have "strings_Replace msg ''Paused in debugger'' new 1 = msg" for new
    by (rule strings_Replace_absent)
  then show "handle_msg_from_devtools from_conn cinfo msg = Return ((msg, True), from_conn)"
    by (simp add: handle_msg_from_devtools_def)
next
  assume a: "sublist ''Overlay.setPausedInDebuggerMessage'' msg
        \<and> msg = pre @ ''Paused in debugger'' @ post
        \<and> (\<forall>j<length pre. \<not> prefix ''Paused in debugger'' (drop j msg))"
  then have "sublist ''Overlay.setPausedInDebuggerMessage'' msg"
    by blast
  then have c: "strings_Contains msg ''Overlay.setPausedInDebuggerMessage''"
    by (simp only: strings_Contains_sublist)
  from a have m: "msg = pre @ ''Paused in debugger'' @ post" by blast
  from a have "\<forall>j<length pre. \<not> prefix ''Paused in debugger'' (drop j (pre @ ''Paused in debugger'' @ post))"
    by blast
  then have "strings_Replace (pre @ ''Paused in debugger'' @ post) ''Paused in debugger'' new 1 = pre @ new @ post" for new
    by (rule strings_Replace_first)
  then have "strings_Replace msg ''Paused in debugger'' new 1 = pre @ new @ post" for new
    unfolding m .
  with c show "handle_msg_from_devtools from_conn cinfo msg
          = Return ((pre @ (''Paused in debugger - Surprise '' @ Author) @ post, True), from_conn)"
    by (simp add: handle_msg_from_devtools_def)
qed

lemma overlay_frame_split:
  \<open>overlay_frame = ''{"id":7,"method":"Overlay.setPausedInDebuggerMessage","params":{"message":"''
      @ ''Paused in debugger'' @ '', still Paused in debugger"}}''\<close>
  by (simp add: overlay_frame_def)

lemma overlay_frame_Index: "strings_Index overlay_frame ''Paused in debugger'' = Some 75"
  by (simp add: overlay_frame_def)

lemma overlay_frame_Contains: "strings_Contains overlay_frame ''Overlay.setPausedInDebuggerMessage''"
  by (simp add: overlay_frame_def strings_Contains_def)

lemma enable_frame_Contains: "\<not> strings_Contains enable_frame ''Overlay.setPausedInDebuggerMessage''"
  by (simp add: enable_frame_def strings_Contains_def)

theorem devtools_handler_rule_witness:
  \<open>handle_msg_from_devtools devtools0 cinfo_devtools overlay_frame
     = Return ((''{"id":7,"method":"Overlay.setPausedInDebuggerMessage","params":{"message":"Paused in debugger - Surprise From 52pj, still Paused in debugger"}}'', True), devtools0)
   \<and> handle_msg_from_devtools devtools0 cinfo_devtools enable_frame
     = Return ((enable_frame, True), devtools0)\<close>
proof -
  let ?pre = \<open>''{"id":7,"method":"Overlay.setPausedInDebuggerMessage","params":{"message":"''\<close>
  have l: "length ?pre = 75" by simp
  have f: "\<forall>j<length ?pre. \<not> prefix ''Paused in debugger'' (drop j overlay_frame)"
    using strings_Index_least [OF overlay_frame_Index] unfolding l by blast
  have s1: "sublist ''Overlay.setPausedInDebuggerMessage'' overlay_frame"
    using overlay_frame_Contains by (simp add: strings_Contains_sublist)
  have s2: "\<not> sublist ''Overlay.setPausedInDebuggerMessage'' enable_frame"
    using enable_frame_Contains by (simp add: strings_Contains_sublist)
  from devtools_handler_rule [where msg = overlay_frame and pre = ?pre
      and post = \<open>'', still Paused in debugger"}}''\<close> and from_conn = devtools0 and cinfo = cinfo_devtools]
    s1 f overlay_frame_split
  have 1: "handle_msg_from_devtools devtools0 cinfo_devtools overlay_frame
     = Return ((?pre @ (''Paused in debugger - Surprise '' @ Author) @ '', still Paused in debugger\"}}'', True), devtools0)"
    by blast
  from devtools_handler_rule [where msg = enable_frame and from_conn = devtools0 and cinfo = cinfo_devtools] s2
  have 2: "handle_msg_from_devtools devtools0 cinfo_devtools enable_frame
     = Return ((enable_frame, True), devtools0)"
    by blast
  from 1 2 show ?thesis by (simp add: Author_def)
qed

subsection \<open>Reading from a connection that closes\<close>

text \<open>A read on a connection whose flag is already set fails.\<close>

lemma ReadMessage_closed:
  "is_closed c \<Longrightarrow> ReadMessage c = Return (([], Some (closed_error c)), c)"
  by (simp add: ReadMessage_def is_Closed_def)

text \<open>
  A read that waits on the empty inbound channel of an open connection is woken
  by \<open>Close\<close> with the empty frame and no error.
\<close>

lemma ReadMessage_recv_after_Close:
  assumes "conn_inv c" and "\<not> is_closed c" and "buf (msg_reciver c) = []"
  shows "ReadMessage c = Blocked
     \<and> (\<exists>c'. Close c = Return c' \<and> ReadMessage_recv c' = Return (([], None), c'))"
  using assms
  by (simp add: ReadMessage_def ReadMessage_recv_def is_Closed_def chan_recv_def Close_def
      chan_close_def conn_inv_def)

text \<open>
  C8, the error contract of \<open>ReadMessage\<close>. The claim asks for a
  closed-connection error also when the connection closes while the read waits.
  On the new connection \<open>web0\<close> the read waits on the empty inbound channel;
  \<open>Close\<close> closes that channel; the receive that was waiting then yields the zero
  value of the closed channel, and \<open>ReadMessage\<close> returns the empty frame with a
  nil error.
\<close>

theorem ReadMessage_woken_by_Close:
  "ReadMessage web0 = Blocked
   \<and> Close web0 = Return web0_closed
   \<and> ReadMessage_recv web0_closed = Return (([], None), web0_closed)"
  by (simp add: Close_web0 ReadMessage_def ReadMessage_recv_def is_Closed_def chan_recv_def web0_open web0_buf)
     (simp add: web0_closed_def web0_def NewMyWSConnection_def make_chan_def)

subsection \<open>Closing a connection\<close>

lemma conn_inv_New: "conn_inv (NewMyWSConnection name ws)"
  by (simp add: conn_inv_def NewMyWSConnection_def make_chan_def)

lemma websocket_Close_closed: "conn_closed ws \<Longrightarrow> websocket_Close ws = ws"
  by (cases ws) (simp add: websocket_Close_def)

lemma Close_open:
  "conn_inv c \<Longrightarrow> \<not> is_closed c \<Longrightarrow>
   Close c = Return (c\<lparr>msg_sender := (msg_sender c)\<lparr>chan_closed := True\<rparr>,
                      msg_reciver := (msg_reciver c)\<lparr>chan_closed := True\<rparr>,
                      is_closed := True, conn := websocket_Close (conn c)\<rparr>)"
  by (simp add: Close_def conn_inv_def chan_close_def)

lemma Close_flagged: "is_closed c \<Longrightarrow> Close c = Return (c\<lparr>conn := websocket_Close (conn c)\<rparr>)"
  by (simp add: Close_def)

lemma Close_returns:
  assumes "conn_inv c"
  shows "\<exists>c'. Close c = Return c' \<and> conn_inv c' \<and> is_closed c' \<and> conn_closed (conn c')
          \<and> chan_closed (msg_sender c') \<and> chan_closed (msg_reciver c')
          \<and> buf (msg_sender c') = buf (msg_sender c) \<and> buf (msg_reciver c') = buf (msg_reciver c)"
proof (cases "is_closed c")
  case True
  with assms show ?thesis
    by (simp add: Close_flagged conn_inv_def websocket_Close_def)
next
  case False
  with assms show ?thesis
    by (simp add: Close_open conn_inv_def websocket_Close_def)
qed

lemma Close_fixed:
  assumes "is_closed c" and "conn_closed (conn c)"
  shows "Close c = Return c"
  using assms by (simp add: Close_flagged websocket_Close_closed)

lemma Close_times_once:
  assumes "conn_inv c"
  shows "Close_times (Suc n) c = Close c"
proof -
  from Close_returns [OF assms] obtain c' where
    c': "Close c = Return c'" "is_closed c'" "conn_closed (conn c')"
    by blast
  have "Close_times k c' = Return c'" for k
    by (induction k) (simp_all add: Close_fixed c')
  with c' show ?thesis by simp
qed

lemma deferred_Close_returns:
  assumes "conn_inv c"
  shows "\<exists>c'. deferred_Close c = Return (Done c') \<and> conn_inv c' \<and> is_closed c'"
  using Close_returns [OF assms] by (auto simp: deferred_Close_def)

text \<open>
  Every call keeps the flag and the channels in step and never clears the flag;
  none panics on a well-formed connection.
\<close>

lemma conn_call_returns:
  assumes "conn_inv c"
  shows "\<exists>c'. conn_call k c = Return c' \<and> conn_inv c' \<and> (is_closed c \<longrightarrow> is_closed c')
          \<and> (k = CallClose \<longrightarrow> is_closed c')"
proof (cases k)
  case CallClose
  with Close_returns [OF assms] show ?thesis by (auto simp: conn_call_def)
next
  case (CallWriteMessage msg)
  with assms show ?thesis
    by (auto simp: conn_call_def WriteMessage_def is_Closed_def chan_send_def conn_inv_def)
next
  case CallReadMessage
  with assms show ?thesis
    by (auto simp: conn_call_def ReadMessage_def ReadMessage_recv_def is_Closed_def chan_recv_def
        conn_inv_def split: list.splits)
next
  case (CallReaderIter received)
  show ?thesis
  proof (cases "received = None \<or> is_closed c")
    case True
    with deferred_Close_returns [OF assms] CallReaderIter show ?thesis
      by (auto simp: conn_call_def start_reader_iter_def is_Closed_def after_iter_def
          split: option.splits)
  next
    case False
    with assms CallReaderIter show ?thesis
      by (auto simp: conn_call_def start_reader_iter_def is_Closed_def after_iter_def
          chan_send_def conn_inv_def)
  qed
next
  case (CallWriterIter sent)
  show ?thesis
  proof (cases "buf (msg_sender c)")
    case Nil
    with deferred_Close_returns [OF assms] CallWriterIter assms show ?thesis
      by (auto simp: conn_call_def start_writer_iter_def chan_recv_def after_iter_def conn_inv_def)
  next
    case (Cons m ms)
    let ?c1 = "c\<lparr>msg_sender := (msg_sender c)\<lparr>buf := ms\<rparr>\<rparr>"
    from assms have i: "conn_inv ?c1" by (simp add: conn_inv_def)
    have f: "is_closed ?c1 = is_closed c" by simp
    from deferred_Close_returns [OF i] obtain c' where
      c': "deferred_Close ?c1 = Return (Done c')" "conn_inv c'" "is_closed c'" by blast
    show ?thesis
    proof (cases "is_closed c \<or> \<not> sent")
      case True
      with Cons CallWriterIter c' show ?thesis
        by (auto simp: conn_call_def start_writer_iter_def chan_recv_def after_iter_def
            is_Closed_def Let_def)
    next
      case False
      with Cons CallWriterIter i show ?thesis
        by (auto simp: conn_call_def start_writer_iter_def chan_recv_def after_iter_def
            is_Closed_def Let_def)
    qed
  qed
qed

lemma conn_run_returns:
  assumes "conn_inv c"
  shows "\<exists>c'. conn_run c ks = Return c' \<and> conn_inv c' \<and> (is_closed c \<longrightarrow> is_closed c')
          \<and> (CallClose \<in> set ks \<longrightarrow> is_closed c')"
  using assms
proof (induction ks arbitrary: c)
  case Nil
  then show ?case by simp
next
  case (Cons k ks)
  from conn_call_returns [OF Cons.prems, of k] obtain c1 where
    c1: "conn_call k c = Return c1" "conn_inv c1" "is_closed c \<longrightarrow> is_closed c1"
       "k = CallClose \<longrightarrow> is_closed c1"
    by blast
  from Cons.IH [OF c1(2)] obtain c' where
    c': "conn_run c1 ks = Return c'" "conn_inv c'" "is_closed c1 \<longrightarrow> is_closed c'"
       "CallClose \<in> set ks \<longrightarrow> is_closed c'"
    by blast
  from c1 c' show ?case by auto
qed

lemma web1_reached:
  "conn_run (NewMyWSConnection ''web'' ws_web)
     [CallReaderIter (Some response_frame), CallWriteMessage enable_frame] = Return web1"
  by (simp add: conn_call_def start_reader_iter_def WriteMessage_def is_Closed_def chan_send_def
      after_iter_def web1_def web0_def NewMyWSConnection_def make_chan_def buffer_size_def)

lemma Close_web1: "Close web1 = Return web1_closed"
  by (simp add: Close_def web1_def web0_def web1_closed_def NewMyWSConnection_def make_chan_def
      chan_close_def ws_web_def websocket_Close_def)

text \<open>
  C10, \<open>Close\<close> is idempotent and the flag is monotone. Let \<open>c\<close> be a
  connection reached from a new one by any sequence of calls of its tasks. Then
  \<open>Close\<close> returns without a panic; any number of successive calls gives the
  connection that one call gives, and a further call leaves that connection as it
  is, so the two \<open>close\<close> statements run once (a second \<open>close\<close> of a channel
  would panic); afterwards the flag is set, both channels and the socket are
  closed and the queued frames are as before. Along any further sequence of
  calls from \<open>c\<close>, in which \<open>Close\<close> may occur any number of times between the
  other calls, nothing panics, a flag that is set stays set, and the flag is set
  at the end if \<open>Close\<close> was called.
\<close>

theorem Close_idempotent_monotone:
  assumes "conn_run (NewMyWSConnection name ws) ks = Return c"
  shows "\<exists>c1. Close c = Return c1 \<and> Close_times (Suc n) c = Return c1 \<and> Close c1 = Return c1
           \<and> is_closed c1 \<and> chan_closed (msg_sender c1) \<and> chan_closed (msg_reciver c1)
           \<and> conn_closed (conn c1)
           \<and> buf (msg_sender c1) = buf (msg_sender c) \<and> buf (msg_reciver c1) = buf (msg_reciver c)
           \<and> (\<exists>c2. conn_run c ks' = Return c2
                 \<and> (is_closed c \<longrightarrow> is_closed c2) \<and> (CallClose \<in> set ks' \<longrightarrow> is_closed c2))"
proof -
  from conn_run_returns [OF conn_inv_New, of name ws ks] assms have i: "conn_inv c"
    by auto
  from Close_returns [OF i] obtain c1 where
    c1: "Close c = Return c1" "conn_inv c1" "is_closed c1" "conn_closed (conn c1)"
      "chan_closed (msg_sender c1)" "chan_closed (msg_reciver c1)"
      "buf (msg_sender c1) = buf (msg_sender c)" "buf (msg_reciver c1) = buf (msg_reciver c)"
    by blast
  have t: "Close_times (Suc n) c = Return c1"
    using Close_times_once [OF i, of n] c1(1) by simp
  have f: "Close c1 = Return c1"
    using c1 by (simp add: Close_fixed)
  from conn_run_returns [OF i, of ks'] obtain c2 where
    "conn_run c ks' = Return c2" "is_closed c \<longrightarrow> is_closed c2" "CallClose \<in> set ks' \<longrightarrow> is_closed c2"
    by blast
  with c1 t f show ?thesis by blast
qed

theorem Close_idempotent_monotone_witness:
  "conn_run (NewMyWSConnection ''web'' ws_web)
     [CallReaderIter (Some response_frame), CallWriteMessage enable_frame] = Return web1
   \<and> Close web1 = Return web1_closed
   \<and> Close_times 3 web1 = Return web1_closed
   \<and> Close web1_closed = Return web1_closed
   \<and> is_closed web1_closed
   \<and> (\<exists>c2. conn_run web1 [CallClose, CallReadMessage, CallClose] = Return c2 \<and> is_closed c2)"
proof -
  from Close_idempotent_monotone [OF web1_reached, of 2 "[CallClose, CallReadMessage, CallClose]"]
  obtain c1 c2 where
    c: "Close web1 = Return c1" "Close_times (Suc 2) web1 = Return c1" "Close c1 = Return c1"
       "is_closed c1" "conn_run web1 [CallClose, CallReadMessage, CallClose] = Return c2"
       "CallClose \<in> set [CallClose, CallReadMessage, CallClose] \<longrightarrow> is_closed c2"
    by blast
  from c(1) have e: "c1 = web1_closed" by (simp add: Close_web1)
  have n: "Suc 2 = 3" by simp
  from c e web1_reached show ?thesis
    unfolding n by auto
qed

subsection \<open>The acceptor and the connection pool\<close>

text \<open>No step of the process binds a key of \<open>CONNECTION_POOL\<close>.\<close>

lemma server_step_pool:
  assumes "server_step ev st = Return st'" and "CONNECTION_POOL st = Map.empty"
  shows "CONNECTION_POOL st' = Map.empty"
  using assms
  by (auto simp: server_step_def websocket_handler_def start_transmiter_task_dial_def
      start_transmiter_task_cleanup_def Let_def
      split: if_splits event.splits option.splits result.splits)

lemma server_run_pool:
  assumes "server_run st evs = Return st'" and "CONNECTION_POOL st = Map.empty"
  shows "CONNECTION_POOL st' = Map.empty"
  using assms
proof (induction evs arbitrary: st)
  case Nil
  then show ?case by simp
next
  case (Cons ev evs)
  from Cons.prems(1) obtain st1 where
    s: "server_step ev st = Return st1" "server_run st1 evs = Return st'"
    by (auto split: result.splits)
  from Cons.IH [OF s(2) server_step_pool [OF s(1) Cons.prems(2)]] show ?case .
qed

lemma server1_reached:
  "server_run server_init [HttpRequest (Some ws_devtools) ''/p/1'' (Some ws_web)] = Return server1"
  by (simp add: server_step_def serving_def server_init_def websocket_handler_def
      start_transmiter_task_dial_def server1_def session1_def devtools0_def web0_def)

text \<open>
  C1, one pair per target path. The claim asks that the pair be entered in the
  registry when the session is created and that a second client on the same path
  be declined while the session is in progress. \<open>websocket_handler\<close> tests
  \<open>CONNECTION_POOL[path]\<close> and \<open>start_transmiter_task\<close> deletes the key at the
  end, but nothing ever binds a key: in every state the process reaches the pool
  is empty, and a request whose upgrade succeeds starts a task on any path, also
  on a path with a session in progress.
\<close>

theorem registry_never_populated:
  assumes "server_run server_init evs = Return st"
  shows "CONNECTION_POOL st = Map.empty
     \<and> websocket_handler (Some ws) path st = (st, Some (NewMyWSConnection ''devtools'' ws, path))"
proof -
  have "CONNECTION_POOL st = Map.empty"
    using server_run_pool [OF assms] by (simp add: server_init_def)
  then show ?thesis by (simp add: websocket_handler_def)
qed

theorem registry_never_populated_witness:
  "server_run server_init [HttpRequest (Some ws_devtools) ''/p/1'' (Some ws_web)] = Return server1
   \<and> map s_path (sessions server1) = [''/p/1'']
   \<and> CONNECTION_POOL server1 ''/p/1'' = None
   \<and> websocket_handler (Some ws_devtools2) ''/p/1'' server1
        = (server1, Some (NewMyWSConnection ''devtools'' ws_devtools2, ''/p/1''))"
  using registry_never_populated [OF server1_reached, of ws_devtools2 "''/p/1''"] server1_reached
  by (simp add: server1_def session1_def)

text \<open>
  C4, a failed upgrade. The claim asks that only the task of that request ends
  and that the process keeps serving. The handler calls \<open>log.Fatal\<close>, which ends
  the process: with a session in progress on \<open>/p/1\<close>, a request on \<open>/p/2\<close>
  whose upgrade fails leaves a process that has exited with status 1. What holds:
  when the upgrade of a request fails (its path has no entry in the pool, or the
  upgrade would not have been tried), the handler starts no task, leaves the pool
  and the sessions as they are, and the process exits with status 1; nothing is
  served afterwards.
\<close>

theorem upgrade_failure_exits:
  assumes "CONNECTION_POOL st path = None"
  shows "websocket_handler None path st = (st\<lparr>exit_code := Some 1\<rparr>, None)
     \<and> \<not> serving (st\<lparr>exit_code := Some 1\<rparr>)
     \<and> server_step ev (st\<lparr>exit_code := Some 1\<rparr>) = Return (st\<lparr>exit_code := Some 1\<rparr>)"
  using assms by (simp add: websocket_handler_def serving_def server_step_def)

theorem upgrade_failure_exits_witness:
  "CONNECTION_POOL server1 ''/p/2'' = None
   \<and> websocket_handler None ''/p/2'' server1 = (server1\<lparr>exit_code := Some 1\<rparr>, None)
   \<and> \<not> serving (server1\<lparr>exit_code := Some 1\<rparr>)
   \<and> server_step (HttpRequest (Some ws_devtools2) ''/p/3'' None) (server1\<lparr>exit_code := Some 1\<rparr>)
        = Return (server1\<lparr>exit_code := Some 1\<rparr>)"
proof -
  have p: "CONNECTION_POOL server1 ''/p/2'' = None" by (simp add: server1_def)
  from upgrade_failure_exits [OF p, of "HttpRequest (Some ws_devtools2) ''/p/3'' None"] p
  show ?thesis by simp
qed

theorem upgrade_failure_counterexample:
  "server_run server_init
     [HttpRequest (Some ws_devtools) ''/p/1'' (Some ws_web), HttpRequest None ''/p/2'' None]
     = Return (server1\<lparr>exit_code := Some 1\<rparr>)
   \<and> sessions (server1\<lparr>exit_code := Some 1\<rparr>) = [session1]
   \<and> \<not> serving (server1\<lparr>exit_code := Some 1\<rparr>)"
  by (simp add: server_step_def serving_def server_init_def websocket_handler_def
      start_transmiter_task_dial_def server1_def session1_def devtools0_def web0_def)

end
